theory Spec2Isabelle
  imports Main
begin

section \<open>Values of the Clarity contracts\<close>

text \<open>
  The three contracts are \<^verbatim>\<open>provider-verification.clar\<close> (the credential registry),
  the audit trail contract with its per-patient index, and the access control contract
  with usage-bounded grants. A principal is an opaque identifier, a \<^verbatim>\<open>string-ascii\<close>
  is a string, and a \<^verbatim>\<open>uint\<close> is an unsigned 128-bit number: Clarity has no
  wrap-around, an addition or subtraction that leaves the range is a runtime error that
  aborts the transaction. \<open>uint_add\<close> and \<open>uint_sub\<close> write that out.
\<close>

type_synonym principal = string

definition uint_max :: nat where
  "uint_max = 2 ^ 128 - 1"

definition uint_add :: "nat \<Rightarrow> nat \<Rightarrow> nat option" where
  "uint_add a b = (if a + b \<le> uint_max then Some (a + b) else None)"

definition uint_sub :: "nat \<Rightarrow> nat \<Rightarrow> nat option" where
  "uint_sub a b = (if b \<le> a then Some (a - b) else None)"

text \<open>
  A call ends with \<^verbatim>\<open>(ok v)\<close>, with \<^verbatim>\<open>(err uN)\<close>, or with a runtime error
  (\<^verbatim>\<open>unwrap-panic\<close> on \<^verbatim>\<open>none\<close>, arithmetic out of range).
\<close>

datatype error = ErrCode nat | RuntimeAbort

type_synonym 'a response = "error + 'a"

text \<open>What a call sees of its transaction.\<close>

record env =
  tx_sender :: principal
  contract_caller :: principal
  stacks_block_height :: nat

text \<open>The contract principal \<^verbatim>\<open>.access-control\<close>.\<close>

definition ACCESS_CONTROL :: principal where
  "ACCESS_CONTROL = ''.access-control''"

subsection \<open>Error codes\<close>

abbreviation ERR_NOT_AUTHORIZED :: error where "ERR_NOT_AUTHORIZED \<equiv> ErrCode 300"
abbreviation ERR_PROVIDER_NOT_FOUND :: error where "ERR_PROVIDER_NOT_FOUND \<equiv> ErrCode 301"
abbreviation ERR_INVALID_CREDENTIALS :: error where "ERR_INVALID_CREDENTIALS \<equiv> ErrCode 302"
abbreviation ERR_CREDENTIALS_EXPIRED :: error where "ERR_CREDENTIALS_EXPIRED \<equiv> ErrCode 303"
abbreviation ERR_PROVIDER_SUSPENDED :: error where "ERR_PROVIDER_SUSPENDED \<equiv> ErrCode 304"
abbreviation ERR_INVALID_CREDENTIAL_TYPE :: error where "ERR_INVALID_CREDENTIAL_TYPE \<equiv> ErrCode 305"
abbreviation ERR_PROVIDER_ALREADY_EXISTS :: error where "ERR_PROVIDER_ALREADY_EXISTS \<equiv> ErrCode 306"
abbreviation ERR_INVALID_EXPIRY_DATE :: error where "ERR_INVALID_EXPIRY_DATE \<equiv> ErrCode 307"

abbreviation ERR_INVALID_EVENT :: error where "ERR_INVALID_EVENT \<equiv> ErrCode 200"
abbreviation ERR_UNAUTHORIZED_LOGGER :: error where "ERR_UNAUTHORIZED_LOGGER \<equiv> ErrCode 201"
abbreviation ERR_EVENT_NOT_FOUND :: error where "ERR_EVENT_NOT_FOUND \<equiv> ErrCode 202"

abbreviation ERR_INVALID_GRANT :: error where "ERR_INVALID_GRANT \<equiv> ErrCode 101"
abbreviation ERR_GRANT_EXPIRED :: error where "ERR_GRANT_EXPIRED \<equiv> ErrCode 102"
abbreviation ERR_GRANT_NOT_FOUND :: error where "ERR_GRANT_NOT_FOUND \<equiv> ErrCode 103"
abbreviation ERR_PROVIDER_NOT_VERIFIED :: error where "ERR_PROVIDER_NOT_VERIFIED \<equiv> ErrCode 104"
abbreviation ERR_INVALID_PATIENT_BNS :: error where "ERR_INVALID_PATIENT_BNS \<equiv> ErrCode 105"
abbreviation ERR_INVALID_SCOPE :: error where "ERR_INVALID_SCOPE \<equiv> ErrCode 106"
abbreviation ERR_INVALID_MAX_ACCESSES :: error where "ERR_INVALID_MAX_ACCESSES \<equiv> ErrCode 109"

definition MIN_CREDENTIAL_VALIDITY_BLOCKS :: nat where
  "MIN_CREDENTIAL_VALIDITY_BLOCKS = 144"

text \<open>
  The access control contract with usage-bounded grants declares no bound on a grant's
  duration. A later revision of the same contract, the text that follows the README in
  \<^verbatim>\<open>contracts/README.md\<close>, declares this one and checks it in \<^verbatim>\<open>grant-access\<close>.
\<close>

definition MAX_GRANT_DURATION :: nat where
  "MAX_GRANT_DURATION = 52560000"

section \<open>The data maps\<close>

record provider_credential =
  license_number :: string
  credential_types :: "string list"
  issued_at :: nat
  expires_at :: nat
  issuing_authority :: string
  verification_status :: string
  last_verified :: nat
  suspension_reason :: "string option"

record verification =
  verified_by :: principal
  verification_date :: nat
  credential_hash :: string
  verification_result :: string
  ver_notes :: "string option"

record credential_type_info =
  description :: string
  required_for_access :: bool
  created_at :: nat

text \<open>
  The tuple of the map \<^verbatim>\<open>provider-status\<close>. Its fields \<^verbatim>\<open>access-count\<close> and
  \<^verbatim>\<open>status\<close> carry the prefix \<open>ps_\<close>, the grant's fields of the same name do not.
\<close>

record provider_status_entry =
  registration_date :: nat
  last_activity :: nat
  ps_access_count :: nat
  ps_status :: string
  updated_by :: principal

record access_grant =
  expiry_block :: nat
  record_scope :: "string list"
  granted_at :: nat
  granted_by :: principal
  status :: string
  max_accesses :: "nat option"
  access_count :: nat
  last_accessed :: "nat option"

record audit_event =
  ev_patient_bns :: string
  ev_provider :: principal
  ev_event_type :: string
  ev_block_height :: nat
  ev_record_scope :: "string list"
  ev_details :: "string option"

text \<open>
  The state of the ledger: every data map of the three contracts, and the constant
  \<^verbatim>\<open>CONTRACT-OWNER\<close> of the registry, which is the sender of the deployment and is
  written by no function.
\<close>

record chain_state =
  contract_owner :: principal
  provider_credentials :: "principal \<rightharpoonup> provider_credential"
  verification_history :: "principal \<times> string \<rightharpoonup> verification"
  valid_credential_types :: "string \<rightharpoonup> credential_type_info"
  credential_verifications :: "principal \<times> string \<rightharpoonup> verification"
  provider_status :: "principal \<rightharpoonup> provider_status_entry"
  access_grants :: "string \<times> principal \<rightharpoonup> access_grant"
  audit_events :: "string \<rightharpoonup> audit_event"
  patient_event_index :: "string \<times> nat \<rightharpoonup> string"
  patient_event_count :: "string \<rightharpoonup> nat"

text \<open>
  A public function is modelled by its body: it returns the response and the state at
  the point where the body stopped, with the writes made so far. The ledger keeps the
  writes of a call only when the response is \<^verbatim>\<open>ok\<close>; \<open>commit\<close> is that rule.
\<close>

definition commit :: "chain_state \<Rightarrow> bool response \<times> chain_state \<Rightarrow> chain_state" where
  "commit s r = (case fst r of Inl _ \<Rightarrow> s | Inr _ \<Rightarrow> snd r)"

text \<open>\<^verbatim>\<open>is-ok\<close> on a response.\<close>

definition is_ok :: "'a response \<Rightarrow> bool" where
  "is_ok r = (case r of Inl _ \<Rightarrow> False | Inr _ \<Rightarrow> True)"

text \<open>\<^verbatim>\<open>index-of\<close>: the position of the first occurrence.\<close>

fun index_of :: "'a list \<Rightarrow> 'a \<Rightarrow> nat option" where
  "index_of [] x = None"
| "index_of (y # ys) x = (if y = x then Some 0 else map_option Suc (index_of ys x))"

section \<open>The credential registry\<close>

definition generate_verification_id :: "principal \<Rightarrow> string" where
  "generate_verification_id provider = ''verification-id''"

definition is_valid_credential_type :: "chain_state \<Rightarrow> string \<Rightarrow> bool" where
  "is_valid_credential_type s credential_type = (valid_credential_types s credential_type \<noteq> None)"

definition validate_credential_types :: "chain_state \<Rightarrow> string list \<Rightarrow> bool" where
  "validate_credential_types s types =
     (length types = length (filter (is_valid_credential_type s) types))"

definition register_provider ::
  "env \<Rightarrow> principal \<Rightarrow> string \<Rightarrow> string list \<Rightarrow> nat \<Rightarrow> string \<Rightarrow> string \<Rightarrow> chain_state
     \<Rightarrow> bool response \<times> chain_state" where
  "register_provider e provider license types expires authority hash s =
     (if tx_sender e \<noteq> contract_owner s then (Inl ERR_NOT_AUTHORIZED, s)
      else if provider_credentials s provider \<noteq> None then (Inl ERR_PROVIDER_ALREADY_EXISTS, s)
      else if \<not> expires > stacks_block_height e then (Inl ERR_INVALID_EXPIRY_DATE, s)
      else case uint_add (stacks_block_height e) MIN_CREDENTIAL_VALIDITY_BLOCKS of
        None \<Rightarrow> (Inl RuntimeAbort, s)
      | Some limit \<Rightarrow>
          if \<not> expires > limit then (Inl ERR_INVALID_EXPIRY_DATE, s)
          else if \<not> validate_credential_types s types then (Inl ERR_INVALID_CREDENTIAL_TYPE, s)
          else if \<not> length hash > 0 then (Inl ERR_INVALID_CREDENTIALS, s)
          else
            let s1 = s\<lparr>provider_credentials := (provider_credentials s)(provider \<mapsto>
                       \<lparr>license_number = license, credential_types = types,
                        issued_at = stacks_block_height e, expires_at = expires,
                        issuing_authority = authority, verification_status = ''verified'',
                        last_verified = stacks_block_height e, suspension_reason = None\<rparr>)\<rparr>;
                s2 = s1\<lparr>credential_verifications := (credential_verifications s1)
                       ((provider, generate_verification_id provider) \<mapsto>
                       \<lparr>verified_by = tx_sender e, verification_date = stacks_block_height e,
                        credential_hash = hash, verification_result = ''verified'',
                        ver_notes = None\<rparr>)\<rparr>;
                s3 = s2\<lparr>provider_status := (provider_status s2)(provider \<mapsto>
                       \<lparr>registration_date = stacks_block_height e,
                        last_activity = stacks_block_height e, ps_access_count = 0,
                        ps_status = ''active'', updated_by = tx_sender e\<rparr>)\<rparr>
            in (Inr True, s3))"

definition verify_provider :: "env \<Rightarrow> principal \<Rightarrow> chain_state \<Rightarrow> bool response" where
  "verify_provider e provider s =
     (case provider_credentials s provider of
        None \<Rightarrow> Inl ERR_PROVIDER_NOT_FOUND
      | Some creds \<Rightarrow>
          (case provider_status s provider of
             None \<Rightarrow> Inl ERR_PROVIDER_NOT_FOUND
           | Some stat \<Rightarrow>
               if verification_status creds = ''verified''
                  \<and> expires_at creds > stacks_block_height e
                  \<and> ps_status stat = ''active''
               then Inr True
               else if stacks_block_height e > expires_at creds then Inl ERR_CREDENTIALS_EXPIRED
               else if ps_status stat \<noteq> ''active'' then Inl ERR_PROVIDER_SUSPENDED
               else Inl ERR_INVALID_CREDENTIALS))"

definition update_provider_credentials ::
  "env \<Rightarrow> principal \<Rightarrow> nat \<Rightarrow> string list \<Rightarrow> chain_state \<Rightarrow> bool response \<times> chain_state" where
  "update_provider_credentials e provider new_expires_at new_credential_types s =
     (if tx_sender e \<noteq> contract_owner s then (Inl ERR_NOT_AUTHORIZED, s)
      else if provider_credentials s provider = None then (Inl ERR_PROVIDER_NOT_FOUND, s)
      else if \<not> new_expires_at > stacks_block_height e then (Inl ERR_INVALID_EXPIRY_DATE, s)
      else if \<not> validate_credential_types s new_credential_types
        then (Inl ERR_INVALID_CREDENTIAL_TYPE, s)
      else case provider_credentials s provider of
        None \<Rightarrow> (Inl RuntimeAbort, s)
      | Some creds \<Rightarrow>
          (Inr True, s\<lparr>provider_credentials := (provider_credentials s)(provider \<mapsto>
             creds\<lparr>credential_types := new_credential_types, expires_at := new_expires_at,
                   last_verified := stacks_block_height e\<rparr>)\<rparr>))"

definition suspend_provider ::
  "env \<Rightarrow> principal \<Rightarrow> string \<Rightarrow> chain_state \<Rightarrow> bool response \<times> chain_state" where
  "suspend_provider e provider reason s =
     (if tx_sender e \<noteq> contract_owner s then (Inl ERR_NOT_AUTHORIZED, s)
      else case provider_status s provider of
        None \<Rightarrow> (Inl ERR_PROVIDER_NOT_FOUND, s)
      | Some stat \<Rightarrow>
          let s1 = s\<lparr>provider_status := (provider_status s)(provider \<mapsto>
                     stat\<lparr>ps_status := ''suspended'', updated_by := tx_sender e\<rparr>)\<rparr>
          in case provider_credentials s1 provider of
               None \<Rightarrow> (Inl RuntimeAbort, s1)
             | Some creds \<Rightarrow>
                 (Inr True, s1\<lparr>provider_credentials := (provider_credentials s1)(provider \<mapsto>
                    creds\<lparr>suspension_reason := Some reason\<rparr>)\<rparr>))"

definition reactivate_provider ::
  "env \<Rightarrow> principal \<Rightarrow> chain_state \<Rightarrow> bool response \<times> chain_state" where
  "reactivate_provider e provider s =
     (if tx_sender e \<noteq> contract_owner s then (Inl ERR_NOT_AUTHORIZED, s)
      else case provider_status s provider of
        None \<Rightarrow> (Inl ERR_PROVIDER_NOT_FOUND, s)
      | Some stat \<Rightarrow>
          if ps_status stat \<noteq> ''suspended'' then (Inl ERR_INVALID_CREDENTIALS, s)
          else
            let s1 = s\<lparr>provider_status := (provider_status s)(provider \<mapsto>
                       stat\<lparr>ps_status := ''active'', updated_by := tx_sender e\<rparr>)\<rparr>
            in case provider_credentials s1 provider of
                 None \<Rightarrow> (Inl RuntimeAbort, s1)
               | Some creds \<Rightarrow>
                   (Inr True, s1\<lparr>provider_credentials := (provider_credentials s1)(provider \<mapsto>
                      creds\<lparr>suspension_reason := None\<rparr>)\<rparr>))"

definition get_provider_credentials ::
  "principal \<Rightarrow> chain_state \<Rightarrow> provider_credential option response" where
  "get_provider_credentials provider s = Inr (provider_credentials s provider)"

definition get_provider_status ::
  "principal \<Rightarrow> chain_state \<Rightarrow> provider_status_entry option response" where
  "get_provider_status provider s = Inr (provider_status s provider)"

definition add_credential_type ::
  "env \<Rightarrow> string \<Rightarrow> string \<Rightarrow> bool \<Rightarrow> chain_state \<Rightarrow> bool response \<times> chain_state" where
  "add_credential_type e credential_type descr required s =
     (if tx_sender e \<noteq> contract_owner s then (Inl ERR_NOT_AUTHORIZED, s)
      else (Inr True, s\<lparr>valid_credential_types := (valid_credential_types s)(credential_type \<mapsto>
              \<lparr>description = descr, required_for_access = required,
               created_at = stacks_block_height e\<rparr>)\<rparr>))"

definition record_provider_activity ::
  "env \<Rightarrow> principal \<Rightarrow> chain_state \<Rightarrow> bool response \<times> chain_state" where
  "record_provider_activity e provider s =
     (if contract_caller e \<noteq> ACCESS_CONTROL then (Inl ERR_NOT_AUTHORIZED, s)
      else case provider_status s provider of
        None \<Rightarrow> (Inl ERR_PROVIDER_NOT_FOUND, s)
      | Some stat \<Rightarrow>
          (case uint_add (ps_access_count stat) 1 of
             None \<Rightarrow> (Inl RuntimeAbort, s)
           | Some n \<Rightarrow>
               (Inr True, s\<lparr>provider_status := (provider_status s)(provider \<mapsto>
                  stat\<lparr>last_activity := stacks_block_height e, ps_access_count := n\<rparr>)\<rparr>)))"

definition has_credential_type ::
  "principal \<Rightarrow> string \<Rightarrow> chain_state \<Rightarrow> bool response" where
  "has_credential_type provider credential_type s =
     (case provider_credentials s provider of
        None \<Rightarrow> Inl ERR_PROVIDER_NOT_FOUND
      | Some creds \<Rightarrow> Inr (index_of (credential_types creds) credential_type \<noteq> None))"

section \<open>The audit trail\<close>

definition log_event ::
  "env \<Rightarrow> string \<Rightarrow> string \<Rightarrow> principal \<Rightarrow> string \<Rightarrow> string list \<Rightarrow> string option \<Rightarrow> chain_state
     \<Rightarrow> bool response \<times> chain_state" where
  "log_event e event_id patient_bns provider event_type scope details s =
     (if contract_caller e \<noteq> ACCESS_CONTROL then (Inl ERR_UNAUTHORIZED_LOGGER, s)
      else if \<not> length event_id > 0 then (Inl ERR_INVALID_EVENT, s)
      else if audit_events s event_id \<noteq> None then (Inl ERR_INVALID_EVENT, s)
      else if \<not> length patient_bns > 0 then (Inl ERR_INVALID_EVENT, s)
      else if \<not> length event_type > 0 then (Inl ERR_INVALID_EVENT, s)
      else
        let s1 = s\<lparr>audit_events := (audit_events s)(event_id \<mapsto>
                   \<lparr>ev_patient_bns = patient_bns, ev_provider = provider,
                    ev_event_type = event_type, ev_block_height = stacks_block_height e,
                    ev_record_scope = scope, ev_details = details\<rparr>)\<rparr>;
            current_count = (case patient_event_count s1 patient_bns of
                               None \<Rightarrow> 0 | Some c \<Rightarrow> c);
            s2 = s1\<lparr>patient_event_index := (patient_event_index s1)
                   ((patient_bns, current_count) \<mapsto> event_id)\<rparr>
        in case uint_add current_count 1 of
             None \<Rightarrow> (Inl RuntimeAbort, s2)
           | Some n \<Rightarrow>
               (Inr True, s2\<lparr>patient_event_count := (patient_event_count s2)(patient_bns \<mapsto> n)\<rparr>))"

definition get_patient_audit_trail :: "string \<Rightarrow> chain_state \<Rightarrow> nat response" where
  "get_patient_audit_trail patient_bns s =
     (case patient_event_count s patient_bns of
        Some c \<Rightarrow> Inr c
      | None \<Rightarrow> Inr 0)"

definition get_event_details :: "string \<Rightarrow> chain_state \<Rightarrow> audit_event option response" where
  "get_event_details event_id s = Inr (audit_events s event_id)"

definition get_patient_event_id :: "string \<Rightarrow> nat \<Rightarrow> chain_state \<Rightarrow> string option response" where
  "get_patient_event_id patient_bns event_number s =
     Inr (patient_event_index s (patient_bns, event_number))"

section \<open>Access control\<close>

text \<open>
  A call of the registry from here is a \<^verbatim>\<open>contract-call?\<close>: the registry would see
  this contract as its \<^verbatim>\<open>contract-caller\<close>, the sender stays.
\<close>

definition called_from_access_control :: "env \<Rightarrow> env" where
  "called_from_access_control e = e\<lparr>contract_caller := ACCESS_CONTROL\<rparr>"

text \<open>
  \<^verbatim>\<open>contract-call?\<close> dispatches on a callee written as a literal contract principal
  (or on a trait reference). Given anything else in that place, such as the name of a
  constant, the VM refuses the call: a runtime error, and the callee is never entered.
  The access control contract declares
  \<^verbatim>\<open>(define-constant PROVIDER-VERIFICATION-CONTRACT .provider-verification)\<close> and writes
  that name as the callee of each of its three calls.
\<close>

datatype callee = ContractLiteral principal | ConstantName string

fun contract_call :: "callee \<Rightarrow> 'a \<Rightarrow> 'a option" where
  "contract_call (ContractLiteral c) r = Some r"
| "contract_call (ConstantName n) r = None"

definition PROVIDER_VERIFICATION_CONTRACT :: callee where
  "PROVIDER_VERIFICATION_CONTRACT = ConstantName ''PROVIDER-VERIFICATION-CONTRACT''"

definition grant_access ::
  "env \<Rightarrow> principal \<Rightarrow> string \<Rightarrow> nat \<Rightarrow> string list \<Rightarrow> nat option \<Rightarrow> chain_state
     \<Rightarrow> bool response \<times> chain_state" where
  "grant_access e provider patient_bns expiry scope max_acc s =
     (case contract_call PROVIDER_VERIFICATION_CONTRACT
             (verify_provider (called_from_access_control e) provider s) of
        None \<Rightarrow> (Inl RuntimeAbort, s)
      | Some verified \<Rightarrow>
          if \<not> is_ok verified then (Inl ERR_PROVIDER_NOT_VERIFIED, s)
          else if \<not> length patient_bns > 0 then (Inl ERR_INVALID_PATIENT_BNS, s)
          else if \<not> expiry > stacks_block_height e then (Inl ERR_INVALID_GRANT, s)
          else if \<not> length scope > 0 then (Inl ERR_INVALID_SCOPE, s)
          else
            let s1 = s\<lparr>access_grants := (access_grants s)((patient_bns, provider) \<mapsto>
                       \<lparr>expiry_block = expiry, record_scope = scope,
                        granted_at = stacks_block_height e, granted_by = tx_sender e,
                        status = ''active'', max_accesses = max_acc, access_count = 0,
                        last_accessed = None\<rparr>)\<rparr>
            in case contract_call PROVIDER_VERIFICATION_CONTRACT
                      (record_provider_activity (called_from_access_control e) provider s1) of
                 None \<Rightarrow> (Inl RuntimeAbort, s1)
               | Some (Inl err, s2) \<Rightarrow> (Inl err, s2)
               | Some (Inr _, s2) \<Rightarrow> (Inr True, s2))"

text \<open>
  \<^verbatim>\<open>grant-access\<close> of the later revision: the same body with two more checks, the
  one on the duration marked \<^verbatim>\<open>FIX #1: MEDIUM-1\<close> and the one on
  \<^verbatim>\<open>max-accesses\<close> marked \<^verbatim>\<open>FIX #1: HIGH-9\<close>, and the same callee. The other
  functions of the contract are the same text in both revisions.
\<close>

definition grant_access_revised ::
  "env \<Rightarrow> principal \<Rightarrow> string \<Rightarrow> nat \<Rightarrow> string list \<Rightarrow> nat option \<Rightarrow> chain_state
     \<Rightarrow> bool response \<times> chain_state" where
  "grant_access_revised e provider patient_bns expiry scope max_acc s =
     (case contract_call PROVIDER_VERIFICATION_CONTRACT
             (verify_provider (called_from_access_control e) provider s) of
        None \<Rightarrow> (Inl RuntimeAbort, s)
      | Some verified \<Rightarrow>
          if \<not> is_ok verified then (Inl ERR_PROVIDER_NOT_VERIFIED, s)
          else if \<not> length patient_bns > 0 then (Inl ERR_INVALID_PATIENT_BNS, s)
          else if \<not> expiry > stacks_block_height e then (Inl ERR_INVALID_GRANT, s)
          else case uint_sub expiry (stacks_block_height e) of
            None \<Rightarrow> (Inl RuntimeAbort, s)
          | Some duration \<Rightarrow>
              if \<not> duration < MAX_GRANT_DURATION then (Inl ERR_INVALID_GRANT, s)
              else if \<not> length scope > 0 then (Inl ERR_INVALID_SCOPE, s)
              else if (case max_acc of Some n \<Rightarrow> \<not> n > 0 | None \<Rightarrow> False)
                then (Inl ERR_INVALID_MAX_ACCESSES, s)
              else
                let s1 = s\<lparr>access_grants := (access_grants s)((patient_bns, provider) \<mapsto>
                           \<lparr>expiry_block = expiry, record_scope = scope,
                            granted_at = stacks_block_height e, granted_by = tx_sender e,
                            status = ''active'', max_accesses = max_acc, access_count = 0,
                            last_accessed = None\<rparr>)\<rparr>
                in case contract_call PROVIDER_VERIFICATION_CONTRACT
                          (record_provider_activity (called_from_access_control e) provider s1) of
                     None \<Rightarrow> (Inl RuntimeAbort, s1)
                   | Some (Inl err, s2) \<Rightarrow> (Inl err, s2)
                   | Some (Inr _, s2) \<Rightarrow> (Inr True, s2))"

definition revoke_access ::
  "env \<Rightarrow> principal \<Rightarrow> string \<Rightarrow> chain_state \<Rightarrow> bool response \<times> chain_state" where
  "revoke_access e provider patient_bns s =
     (case access_grants s (patient_bns, provider) of
        None \<Rightarrow> (Inl ERR_GRANT_NOT_FOUND, s)
      | Some grant \<Rightarrow>
          (Inr True, s\<lparr>access_grants := (access_grants s)((patient_bns, provider) \<mapsto>
             grant\<lparr>status := ''revoked''\<rparr>)\<rparr>))"

definition has_access :: "env \<Rightarrow> principal \<Rightarrow> string \<Rightarrow> chain_state \<Rightarrow> bool response" where
  "has_access e provider patient_bns s =
     (case access_grants s (patient_bns, provider) of
        Some grant \<Rightarrow>
          if status grant = ''active''
             \<and> expiry_block grant > stacks_block_height e
             \<and> (case max_accesses grant of
                  Some max_acc \<Rightarrow> access_count grant < max_acc
                | None \<Rightarrow> True)
          then Inr True
          else if stacks_block_height e > expiry_block grant then Inl ERR_GRANT_EXPIRED
          else Inl ERR_INVALID_GRANT
      | None \<Rightarrow> Inl ERR_GRANT_NOT_FOUND)"

definition use_access ::
  "env \<Rightarrow> principal \<Rightarrow> string \<Rightarrow> chain_state \<Rightarrow> bool response \<times> chain_state" where
  "use_access e provider patient_bns s =
     (case has_access e provider patient_bns s of
        Inl err \<Rightarrow> (Inl err, s)
      | Inr _ \<Rightarrow>
          (case access_grants s (patient_bns, provider) of
             None \<Rightarrow> (Inl RuntimeAbort, s)
           | Some grant \<Rightarrow>
               (case uint_add (access_count grant) 1 of
                  None \<Rightarrow> (Inl RuntimeAbort, s)
                | Some n \<Rightarrow>
                    let s1 = s\<lparr>access_grants := (access_grants s)((patient_bns, provider) \<mapsto>
                               grant\<lparr>access_count := n,
                                     last_accessed := Some (stacks_block_height e)\<rparr>)\<rparr>
                    in case contract_call PROVIDER_VERIFICATION_CONTRACT
                              (record_provider_activity (called_from_access_control e)
                                 provider s1) of
                         None \<Rightarrow> (Inl RuntimeAbort, s1)
                       | Some (Inl err, s2) \<Rightarrow> (Inl err, s2)
                       | Some (Inr _, s2) \<Rightarrow> (Inr True, s2))))"

definition get_access_grant ::
  "principal \<Rightarrow> string \<Rightarrow> chain_state \<Rightarrow> access_grant option response" where
  "get_access_grant provider patient_bns s = Inr (access_grants s (patient_bns, provider))"

definition has_record_scope_access ::
  "env \<Rightarrow> principal \<Rightarrow> string \<Rightarrow> string \<Rightarrow> chain_state \<Rightarrow> bool response" where
  "has_record_scope_access e provider patient_bns record_type s =
     (case access_grants s (patient_bns, provider) of
        Some grant \<Rightarrow>
          if status grant = ''active''
             \<and> expiry_block grant > stacks_block_height e
             \<and> index_of (record_scope grant) record_type \<noteq> None
          then Inr True
          else Inl ERR_INVALID_GRANT
      | None \<Rightarrow> Inl ERR_GRANT_NOT_FOUND)"

section \<open>Transactions\<close>

text \<open>
  The public functions a transaction can call, with their arguments. Transactions are
  applied one at a time, in the order the ledger gives them; each comes with its own
  sender and block height.
\<close>

datatype op =
    RegisterProvider principal string "string list" nat string string
  | UpdateProviderCredentials principal nat "string list"
  | SuspendProvider principal string
  | ReactivateProvider principal
  | AddCredentialType string string bool
  | RecordProviderActivity principal
  | LogEvent string string principal string "string list" "string option"
  | GrantAccess principal string nat "string list" "nat option"
  | RevokeAccess principal string
  | UseAccess principal string

fun call :: "env \<Rightarrow> op \<Rightarrow> chain_state \<Rightarrow> bool response \<times> chain_state" where
  "call e (RegisterProvider p l ts x a h) s = register_provider e p l ts x a h s"
| "call e (UpdateProviderCredentials p x ts) s = update_provider_credentials e p x ts s"
| "call e (SuspendProvider p r) s = suspend_provider e p r s"
| "call e (ReactivateProvider p) s = reactivate_provider e p s"
| "call e (AddCredentialType t d r) s = add_credential_type e t d r s"
| "call e (RecordProviderActivity p) s = record_provider_activity e p s"
| "call e (LogEvent i pb p t sc d) s = log_event e i pb p t sc d s"
| "call e (GrantAccess p pb x sc m) s = grant_access e p pb x sc m s"
| "call e (RevokeAccess p pb) s = revoke_access e p pb s"
| "call e (UseAccess p pb) s = use_access e p pb s"

definition transact :: "env \<times> op \<Rightarrow> chain_state \<Rightarrow> chain_state" where
  "transact t s = commit s (call (fst t) (snd t) s)"

fun run :: "(env \<times> op) list \<Rightarrow> chain_state \<Rightarrow> chain_state" where
  "run [] s = s"
| "run (t # ts) s = run ts (transact t s)"


fun grants_pair :: "principal \<Rightarrow> string \<Rightarrow> op \<Rightarrow> bool" where
  "grants_pair p pb (GrantAccess p' pb' x sc m) = (p' = p \<and> pb' = pb)"
| "grants_pair p pb _ = False"

section \<open>A small ledger\<close>

text \<open>
  The ledger right after deployment, and one on which the owner has declared the
  credential type \<^verbatim>\<open>medical-license\<close> and registered a provider at height 100.
\<close>

definition deployed :: "principal \<Rightarrow> chain_state" where
  "deployed owner =
     \<lparr>contract_owner = owner, provider_credentials = Map.empty,
      verification_history = Map.empty, valid_credential_types = Map.empty,
      credential_verifications = Map.empty, provider_status = Map.empty,
      access_grants = Map.empty, audit_events = Map.empty,
      patient_event_index = Map.empty, patient_event_count = Map.empty\<rparr>"

definition at_height :: "principal \<Rightarrow> nat \<Rightarrow> env" where
  "at_height sender h = \<lparr>tx_sender = sender, contract_caller = sender, stacks_block_height = h\<rparr>"

definition clinic_ledger :: chain_state where
  "clinic_ledger =
     run [(at_height ''owner'' 100, AddCredentialType ''medical-license'' ''licence'' True),
          (at_height ''owner'' 100,
             RegisterProvider ''dr-p'' ''L-1'' [''medical-license''] 10100 ''board'' ''c0ffee'')]
       (deployed ''owner'')"




text \<open>
  Two ledgers written out, each holding the grant of the scenario for the pair: one with
  no access counted, one with the count at the maximum of two.
\<close>

definition scenario_grant :: access_grant where
  "scenario_grant =
     \<lparr>expiry_block = 600, record_scope = [''lab-results''], granted_at = 100,
      granted_by = ''owner'', status = ''active'', max_accesses = Some 2,
      access_count = 0, last_accessed = None\<rparr>"

definition ledger_with_grant :: chain_state where
  "ledger_with_grant =
     (deployed ''owner'')\<lparr>access_grants := [(''patient-1'', ''dr-p'') \<mapsto> scenario_grant]\<rparr>"

definition ledger_with_used_grant :: chain_state where
  "ledger_with_used_grant =
     (deployed ''owner'')\<lparr>access_grants := [(''patient-1'', ''dr-p'') \<mapsto>
        scenario_grant\<lparr>access_count := 2, last_accessed := Some 102\<rparr>]\<rparr>"

text \<open>The clinic's provider suspended by the owner at height 200.\<close>

definition suspended_ledger :: chain_state where
  "suspended_ledger =
     transact (at_height ''owner'' 200, SuspendProvider ''dr-p'' ''complaint'') clinic_ledger"

text \<open>One event logged for the patient, by a call that comes from the access control contract.\<close>

definition logged_ledger :: chain_state where
  "logged_ledger =
     transact (called_from_access_control (at_height ''dr-p'' 150),
       LogEvent ''evt-1'' ''patient-1'' ''dr-p'' ''access_used'' [''lab-results''] None)
       clinic_ledger"

section \<open>Facts about single calls\<close>

lemma index_of_None: "index_of xs x = None \<longleftrightarrow> x \<notin> set xs"
  by (induction xs) auto

text \<open>
  The three calls of the registry are refused, so \<^verbatim>\<open>grant-access\<close> stops at its first
  line with a runtime error whatever its arguments, in both revisions, and
  \<^verbatim>\<open>use-access\<close> returns the error of \<^verbatim>\<open>has-access\<close> or stops with a runtime
  error after its write. Neither ever returns ok, and neither commits a write.
\<close>

lemma grant_access_aborts:
  "grant_access e p pb x sc m s = (Inl RuntimeAbort, s)"
  by (simp add: grant_access_def PROVIDER_VERIFICATION_CONTRACT_def)

lemma grant_access_revised_aborts:
  "grant_access_revised e p pb x sc m s = (Inl RuntimeAbort, s)"
  by (simp add: grant_access_revised_def PROVIDER_VERIFICATION_CONTRACT_def)

lemma use_access_fails:
  "fst (use_access e p pb s) =
     (case has_access e p pb s of Inl err \<Rightarrow> Inl err | Inr b \<Rightarrow> Inl RuntimeAbort)"
  by (simp add: use_access_def has_access_def uint_add_def PROVIDER_VERIFICATION_CONTRACT_def
        Let_def split: option.splits sum.splits)

lemma use_access_never_ok: "\<not> is_ok (fst (use_access e p pb s))"
  by (simp add: use_access_fails is_ok_def split: sum.splits)

lemma access_calls_commit_nothing:
  "transact (e, GrantAccess p pb x sc m) s = s"
  "transact (e, UseAccess p pb) s = s"
  using use_access_never_ok [of e p pb s]
  by (simp_all add: transact_def commit_def grant_access_aborts is_ok_def split: sum.splits)

section \<open>What one transaction does to a grant\<close>

text \<open>
  A transaction leaves the grant of a pair as it is, but for a \<^verbatim>\<open>revoke-access\<close>
  of the pair, which sets the status.
\<close>

lemma step_grant:
  assumes "access_grants s (pb, p) = Some g"
  shows "access_grants (transact (e, opn) s) (pb, p) =
     Some (if opn = RevokeAccess p pb then g\<lparr>status := ''revoked''\<rparr> else g)"
proof (cases opn)
  case (RegisterProvider p' l ts x a h)
  then show ?thesis using assms
    by (simp add: transact_def commit_def register_provider_def Let_def split: option.splits)
next
  case (UpdateProviderCredentials p' x ts)
  then show ?thesis using assms
    by (simp add: transact_def commit_def update_provider_credentials_def split: option.splits)
next
  case (SuspendProvider p' r)
  then show ?thesis using assms
    by (simp add: transact_def commit_def suspend_provider_def Let_def split: option.splits)
next
  case (ReactivateProvider p')
  then show ?thesis using assms
    by (simp add: transact_def commit_def reactivate_provider_def Let_def split: option.splits)
next
  case (AddCredentialType t d r)
  then show ?thesis using assms
    by (simp add: transact_def commit_def add_credential_type_def)
next
  case (RecordProviderActivity p')
  then show ?thesis using assms
    by (simp add: transact_def commit_def record_provider_activity_def split: option.splits)
next
  case (LogEvent i pb' p' t sc d)
  then show ?thesis using assms
    by (simp add: transact_def commit_def log_event_def Let_def split: option.splits)
next
  case (GrantAccess p' pb' x sc m)
  then show ?thesis using assms
    by (simp add: access_calls_commit_nothing)
next
  case (RevokeAccess p' pb')
  then show ?thesis using assms
    by (auto simp add: transact_def commit_def revoke_access_def split: option.splits)
next
  case (UseAccess p' pb')
  then show ?thesis using assms
    by (simp add: access_calls_commit_nothing)
qed

lemma revoked_stays:
  assumes "access_grants s (pb, p) = Some g" and "status g = ''revoked''"
  shows "\<exists>g'. access_grants (run ts s) (pb, p) = Some g' \<and> status g' = ''revoked''
           \<and> expiry_block g' = expiry_block g"
  using assms
proof (induction ts arbitrary: s g)
  case Nil
  then show ?case by simp
next
  case (Cons t ts)
  obtain e opn where t: "t = (e, opn)" by (cases t)
  let ?g = "if opn = RevokeAccess p pb then g\<lparr>status := ''revoked''\<rparr> else g"
  have st: "access_grants (transact t s) (pb, p) = Some ?g"
    using step_grant [OF Cons.prems(1), of e opn] t by simp
  have "status ?g = ''revoked''" and "expiry_block ?g = expiry_block g"
    using Cons.prems(2) by simp_all
  with Cons.IH [OF st] show ?case by simp
qed

text \<open>No transaction writes a grant where there is none: a ledger never holds one.\<close>

lemma step_no_grant:
  assumes "access_grants s = Map.empty"
  shows "access_grants (transact (e, opn) s) = Map.empty"
proof (cases opn)
  case (RegisterProvider p' l ts x a h)
  then show ?thesis using assms
    by (simp add: transact_def commit_def register_provider_def Let_def split: option.splits)
next
  case (UpdateProviderCredentials p' x ts)
  then show ?thesis using assms
    by (simp add: transact_def commit_def update_provider_credentials_def split: option.splits)
next
  case (SuspendProvider p' r)
  then show ?thesis using assms
    by (simp add: transact_def commit_def suspend_provider_def Let_def split: option.splits)
next
  case (ReactivateProvider p')
  then show ?thesis using assms
    by (simp add: transact_def commit_def reactivate_provider_def Let_def split: option.splits)
next
  case (AddCredentialType t d r)
  then show ?thesis using assms
    by (simp add: transact_def commit_def add_credential_type_def)
next
  case (RecordProviderActivity p')
  then show ?thesis using assms
    by (simp add: transact_def commit_def record_provider_activity_def split: option.splits)
next
  case (LogEvent i pb' p' t sc d)
  then show ?thesis using assms
    by (simp add: transact_def commit_def log_event_def Let_def split: option.splits)
next
  case (GrantAccess p' pb' x sc m)
  then show ?thesis using assms
    by (simp add: access_calls_commit_nothing)
next
  case (RevokeAccess p' pb')
  then show ?thesis using assms
    by (simp add: transact_def commit_def revoke_access_def)
next
  case (UseAccess p' pb')
  then show ?thesis using assms
    by (simp add: access_calls_commit_nothing)
qed

lemma no_grant_ever: "access_grants (run ts (deployed owner)) = Map.empty"
proof -
  have "access_grants s = Map.empty \<Longrightarrow> access_grants (run ts s) = Map.empty" for s
  proof (induction ts arbitrary: s)
    case Nil
    then show ?case by simp
  next
    case (Cons t ts)
    obtain e opn where "t = (e, opn)" by (cases t)
    with step_no_grant [OF Cons.prems, of e opn] Cons.IH show ?case by simp
  qed
  then show ?thesis by (simp add: deployed_def)
qed

text \<open>
  What a stored grant whose count has reached its maximum reads as: \<^verbatim>\<open>has-access\<close>
  returns \<^verbatim>\<open>(err u101)\<close> below the expiry block, and the status stays as stored.
\<close>

lemma exhaustion_is_checked_at_read:
  assumes "access_grants s (pb, p) = Some g" and "status g = ''active''"
    and "max_accesses g = Some n" and "access_count g = n"
    and "stacks_block_height e < expiry_block g"
  shows "has_access e p pb s = Inl (ErrCode 101)"
    and "get_access_grant p pb s = Inr (Some g)"
  using assms by (simp_all add: has_access_def get_access_grant_def)

section \<open>The small ledger, written out\<close>

lemmas ledger_eval = deployed_def at_height_def transact_def commit_def uint_add_def
  uint_max_def called_from_access_control_def ACCESS_CONTROL_def is_ok_def Let_def

lemma clinic_ledger_eq:
  "clinic_ledger =
     \<lparr>contract_owner = ''owner'',
      provider_credentials = [''dr-p'' \<mapsto>
        \<lparr>license_number = ''L-1'', credential_types = [''medical-license''],
         issued_at = 100, expires_at = 10100, issuing_authority = ''board'',
         verification_status = ''verified'', last_verified = 100, suspension_reason = None\<rparr>],
      verification_history = Map.empty,
      valid_credential_types = [''medical-license'' \<mapsto>
        \<lparr>description = ''licence'', required_for_access = True, created_at = 100\<rparr>],
      credential_verifications = [(''dr-p'', ''verification-id'') \<mapsto>
        \<lparr>verified_by = ''owner'', verification_date = 100, credential_hash = ''c0ffee'',
         verification_result = ''verified'', ver_notes = None\<rparr>],
      provider_status = [''dr-p'' \<mapsto>
        \<lparr>registration_date = 100, last_activity = 100, ps_access_count = 0,
         ps_status = ''active'', updated_by = ''owner''\<rparr>],
      access_grants = Map.empty, audit_events = Map.empty,
      patient_event_index = Map.empty, patient_event_count = Map.empty\<rparr>"
  by (simp add: clinic_ledger_def ledger_eval register_provider_def add_credential_type_def
        MIN_CREDENTIAL_VALIDITY_BLOCKS_def validate_credential_types_def
        is_valid_credential_type_def generate_verification_id_def)


section \<open>Properties of the contracts\<close>

subsection \<open>Access calls and the audit log\<close>

text \<open>
  Neither \<^verbatim>\<open>grant-access\<close> nor \<^verbatim>\<open>use-access\<close> writes one of the three maps of
  the audit trail, at any point of its body: the contract has no call of
  \<^verbatim>\<open>log-event\<close>.
\<close>

lemma access_calls_write_no_audit_map:
  "audit_events (snd (grant_access e p pb x sc m s)) = audit_events s"
  "patient_event_count (snd (grant_access e p pb x sc m s)) = patient_event_count s"
  "audit_events (snd (use_access e p pb s)) = audit_events s"
  "patient_event_index (snd (use_access e p pb s)) = patient_event_index s"
  "patient_event_count (snd (use_access e p pb s)) = patient_event_count s"
  by (simp_all add: grant_access_aborts use_access_def uint_add_def Let_def
        PROVIDER_VERIFICATION_CONTRACT_def split: option.splits sum.splits)


subsection \<open>The gate of the activity recorder\<close>

text \<open>
  C2. For a caller other than the access control contract,
  \<^verbatim>\<open>record-provider-activity\<close> returns \<^verbatim>\<open>(err u300)\<close> and the state it leaves is
  the state it found, the provider status map included. For the access control contract
  and a provider with a status entry, it returns ok, adds one to the access count and
  sets the last activity to the current height. The count is a \<^verbatim>\<open>uint\<close>: the
  addition needs it below the largest one.
\<close>

theorem record_provider_activity_gated:
  "(contract_caller e \<noteq> ACCESS_CONTROL \<longrightarrow>
      record_provider_activity e p s = (Inl (ErrCode 300), s))
   \<and> (contract_caller e = ACCESS_CONTROL \<and> provider_status s p = Some st
        \<and> ps_access_count st < uint_max \<longrightarrow>
      record_provider_activity e p s =
        (Inr True, s\<lparr>provider_status := (provider_status s)(p \<mapsto>
           st\<lparr>last_activity := stacks_block_height e,
              ps_access_count := ps_access_count st + 1\<rparr>)\<rparr>))"
  by (simp add: record_provider_activity_def uint_add_def)

theorem record_provider_activity_gated_witness:
  "record_provider_activity (at_height ''mallory'' 150) ''dr-p'' clinic_ledger
     = (Inl (ErrCode 300), clinic_ledger)
   \<and> record_provider_activity (called_from_access_control (at_height ''mallory'' 150))
       ''dr-p'' clinic_ledger
     = (Inr True, clinic_ledger\<lparr>provider_status := [''dr-p'' \<mapsto>
          \<lparr>registration_date = 100, last_activity = 150, ps_access_count = 1,
           ps_status = ''active'', updated_by = ''owner''\<rparr>]\<rparr>)"
  using record_provider_activity_gated [of "at_height ''mallory'' 150" "''dr-p''" clinic_ledger]
    record_provider_activity_gated [of "called_from_access_control (at_height ''mallory'' 150)"
      "''dr-p''" clinic_ledger
      "\<lparr>registration_date = 100, last_activity = 100, ps_access_count = 0,
        ps_status = ''active'', updated_by = ''owner''\<rparr>"]
  by (simp add: clinic_ledger_eq at_height_def called_from_access_control_def
        ACCESS_CONTROL_def uint_max_def)

subsection \<open>Revocation\<close>

text \<open>
  C3. After a \<^verbatim>\<open>revoke-access\<close> of a pair that returns ok, and after any further
  transactions among which none is a \<^verbatim>\<open>grant-access\<close> of the pair,
  \<^verbatim>\<open>has-access\<close> of the pair returns an error at every height and whatever the
  usage budget: \<^verbatim>\<open>(err u102)\<close> above the expiry block, \<^verbatim>\<open>(err u101)\<close> otherwise.
\<close>

theorem revoke_then_has_access_fails:
  assumes "revoke_access e p pb s = (Inr True, s')"
    and "\<forall>t \<in> set ts. \<not> grants_pair p pb (snd t)"
  shows "\<exists>g. access_grants s (pb, p) = Some g \<and>
           has_access e' p pb (run ts s') =
             Inl (if stacks_block_height e' > expiry_block g then ErrCode 102 else ErrCode 101)"
proof -
  from assms(1) obtain g where g: "access_grants s (pb, p) = Some g"
    and s': "s' = s\<lparr>access_grants := (access_grants s)((pb, p) \<mapsto> g\<lparr>status := ''revoked''\<rparr>)\<rparr>"
    by (auto simp: revoke_access_def split: option.splits)
  have "access_grants s' (pb, p) = Some (g\<lparr>status := ''revoked''\<rparr>)"
    using s' by simp
  from revoked_stays [OF this, of ts]
  obtain g' where "access_grants (run ts s') (pb, p) = Some g'" and "status g' = ''revoked''"
    and "expiry_block g' = expiry_block g"
    by auto
  then have "has_access e' p pb (run ts s') =
      Inl (if stacks_block_height e' > expiry_block g then ErrCode 102 else ErrCode 101)"
    by (simp add: has_access_def)
  with g show ?thesis by simp
qed

theorem revoke_then_has_access_fails_witness:
  "fst (revoke_access (at_height ''patient'' 150) ''dr-p'' ''patient-1'' ledger_with_grant)
     = Inr True
   \<and> has_access (at_height ''dr-p'' 170) ''dr-p'' ''patient-1''
       (run [(at_height ''dr-p'' 160, UseAccess ''dr-p'' ''patient-1'')]
          (snd (revoke_access (at_height ''patient'' 150) ''dr-p'' ''patient-1''
                  ledger_with_grant)))
     = Inl (ErrCode 101)"
proof -
  have f: "fst (revoke_access (at_height ''patient'' 150) ''dr-p'' ''patient-1''
             ledger_with_grant) = Inr True"
    by (simp add: revoke_access_def ledger_with_grant_def)
  then have r: "revoke_access (at_height ''patient'' 150) ''dr-p'' ''patient-1'' ledger_with_grant
      = (Inr True,
         snd (revoke_access (at_height ''patient'' 150) ''dr-p'' ''patient-1''
                ledger_with_grant))"
    by (metis prod.collapse)
  have n: "\<forall>t \<in> set [(at_height ''dr-p'' 160, UseAccess ''dr-p'' ''patient-1'')].
             \<not> grants_pair ''dr-p'' ''patient-1'' (snd t)"
    by simp
  have x: "access_grants ledger_with_grant (''patient-1'', ''dr-p'') = Some g
             \<Longrightarrow> expiry_block g = 600" for g
    by (auto simp: ledger_with_grant_def scenario_grant_def)
  from revoke_then_has_access_fails [OF r n, of "at_height ''dr-p'' 170"] x
  have "has_access (at_height ''dr-p'' 170) ''dr-p'' ''patient-1''
       (run [(at_height ''dr-p'' 160, UseAccess ''dr-p'' ''patient-1'')]
          (snd (revoke_access (at_height ''patient'' 150) ''dr-p'' ''patient-1''
                  ledger_with_grant)))
     = Inl (ErrCode 101)"
    by (auto simp: at_height_def)
  with f show ?thesis by simp
qed

subsection \<open>The usage budget\<close>


subsection \<open>Scope checks and the usage budget\<close>

text \<open>
  C10. \<^verbatim>\<open>has-record-scope-access\<close> does not look at the usage budget: for a grant
  whose status is \<^verbatim>\<open>active\<close>, whose expiry block is above the current height and
  whose scope holds the record type, it returns \<^verbatim>\<open>(ok true)\<close>, also when the access
  count has reached \<^verbatim>\<open>max-accesses\<close> and \<^verbatim>\<open>has-access\<close> of the pair returns
  \<^verbatim>\<open>(err u101)\<close>.
\<close>

theorem scope_access_ignores_usage_budget:
  assumes "access_grants s (pb, p) = Some g" and "status g = ''active''"
    and "expiry_block g > stacks_block_height e" and "rt \<in> set (record_scope g)"
  shows "has_record_scope_access e p pb rt s = Inr True
     \<and> (\<forall>m. max_accesses g = Some m \<and> m \<le> access_count g \<longrightarrow>
           has_access e p pb s = Inl (ErrCode 101))"
  using assms by (auto simp: has_record_scope_access_def has_access_def index_of_None)

theorem scope_access_ignores_usage_budget_witness:
  "has_record_scope_access (at_height ''dr-p'' 103) ''dr-p'' ''patient-1'' ''lab-results''
      ledger_with_used_grant = Inr True
   \<and> has_access (at_height ''dr-p'' 103) ''dr-p'' ''patient-1'' ledger_with_used_grant
       = Inl (ErrCode 101)"
  using scope_access_ignores_usage_budget [of ledger_with_used_grant "''patient-1''" "''dr-p''"
      "scenario_grant\<lparr>access_count := 2, last_accessed := Some 102\<rparr>"
      "at_height ''dr-p'' 103" "''lab-results''"]
  by (simp add: ledger_with_used_grant_def scenario_grant_def at_height_def)

subsection \<open>The expiry of a grant\<close>

text \<open>
  C5 says that \<^verbatim>\<open>grant-access\<close> answers an expiry block that is not above the current
  height, or too far above it, with \<^verbatim>\<open>(err u101)\<close>. The contract does not reach its
  checks of the expiry. On the small ledger, at height 100, \<^verbatim>\<open>grant-access\<close> for the
  verified provider with the expiry block 100 stops with a runtime error at its call of
  the registry, in both revisions; so does the later revision with the expiry block
  52560101, which is more than \<open>MAX_GRANT_DURATION\<close> blocks away.
\<close>

theorem grant_access_stops_before_expiry_checks:
  "grant_access (at_height ''owner'' 100) ''dr-p'' ''patient-1'' 100 [''lab-results''] None
      clinic_ledger = (Inl RuntimeAbort, clinic_ledger)
   \<and> grant_access_revised (at_height ''owner'' 100) ''dr-p'' ''patient-1'' 100
        [''lab-results''] None clinic_ledger = (Inl RuntimeAbort, clinic_ledger)
   \<and> grant_access_revised (at_height ''owner'' 100) ''dr-p'' ''patient-1'' 52560101
        [''lab-results''] None clinic_ledger = (Inl RuntimeAbort, clinic_ledger)
   \<and> 52560101 - 100 > MAX_GRANT_DURATION
   \<and> is_ok (verify_provider (at_height ''owner'' 100) ''dr-p'' clinic_ledger)"
  by (simp add: grant_access_aborts grant_access_revised_aborts MAX_GRANT_DURATION_def
        verify_provider_def clinic_ledger_eq is_ok_def at_height_def)

subsection \<open>The audit log\<close>

lemma logged_ledger_eq:
  "logged_ledger = clinic_ledger
     \<lparr>audit_events := [''evt-1'' \<mapsto>
        \<lparr>ev_patient_bns = ''patient-1'', ev_provider = ''dr-p'', ev_event_type = ''access_used'',
         ev_block_height = 150, ev_record_scope = [''lab-results''], ev_details = None\<rparr>],
      patient_event_index := [(''patient-1'', 0) \<mapsto> ''evt-1''],
      patient_event_count := [''patient-1'' \<mapsto> 1]\<rparr>"
  by (simp add: logged_ledger_def clinic_ledger_eq ledger_eval log_event_def)

lemma log_event_unauthorized:
  "contract_caller e \<noteq> ACCESS_CONTROL \<Longrightarrow>
     log_event e i pb p t sc d s = (Inl (ErrCode 201), s)"
  by (simp add: log_event_def)

text \<open>
  C6. \<^verbatim>\<open>log-event\<close> first checks its caller: anyone but the access control contract
  gets \<^verbatim>\<open>(err u201)\<close>. Called by the access control contract, it returns
  \<^verbatim>\<open>(err u200)\<close> when the event id is empty or already used, or the patient or the
  event type is empty. With a used event id the call fails for every caller and leaves
  the state, so the patient's event count, as it was. A call that returns ok has written
  the event, the index entry at the position of the former count and the count plus one;
  every other call commits nothing, so the ledger never holds a part of the three writes.
\<close>

theorem log_event_validation_and_atomicity:
  "(contract_caller e \<noteq> ACCESS_CONTROL \<longrightarrow>
      log_event e i pb p t sc d s = (Inl (ErrCode 201), s))
   \<and> (contract_caller e = ACCESS_CONTROL
      \<and> (i = [] \<or> audit_events s i \<noteq> None \<or> pb = [] \<or> t = []) \<longrightarrow>
      log_event e i pb p t sc d s = (Inl (ErrCode 200), s))
   \<and> (audit_events s i \<noteq> None \<longrightarrow>
        fst (log_event e i pb p t sc d s) \<noteq> Inr True
        \<and> snd (log_event e i pb p t sc d s) = s
        \<and> get_patient_audit_trail pb (commit s (log_event e i pb p t sc d s))
            = get_patient_audit_trail pb s)
   \<and> (fst (log_event e i pb p t sc d s) = Inr True \<longrightarrow>
        (\<exists>c. get_patient_audit_trail pb s = Inr c \<and>
           commit s (log_event e i pb p t sc d s) =
             s\<lparr>audit_events := (audit_events s)(i \<mapsto>
                  \<lparr>ev_patient_bns = pb, ev_provider = p, ev_event_type = t,
                   ev_block_height = stacks_block_height e, ev_record_scope = sc,
                   ev_details = d\<rparr>),
               patient_event_index := (patient_event_index s)((pb, c) \<mapsto> i),
               patient_event_count := (patient_event_count s)(pb \<mapsto> c + 1)\<rparr>))
   \<and> (fst (log_event e i pb p t sc d s) \<noteq> Inr True \<longrightarrow>
        commit s (log_event e i pb p t sc d s) = s)"
  by (auto simp add: log_event_def uint_add_def Let_def commit_def get_patient_audit_trail_def
        split: option.splits)

theorem log_event_validation_and_atomicity_witness:
  "log_event (at_height ''dr-p'' 160) ''evt-1'' ''patient-1''
      ''dr-p'' ''access_used'' [''lab-results''] None logged_ledger
     = (Inl (ErrCode 201), logged_ledger)
   \<and> log_event (called_from_access_control (at_height ''dr-p'' 160)) ''evt-1'' ''patient-1''
      ''dr-p'' ''access_used'' [''lab-results''] None logged_ledger
     = (Inl (ErrCode 200), logged_ledger)
   \<and> get_patient_audit_trail ''patient-1'' logged_ledger = Inr 1
   \<and> commit clinic_ledger
        (log_event (called_from_access_control (at_height ''dr-p'' 150)) ''evt-1'' ''patient-1''
           ''dr-p'' ''access_used'' [''lab-results''] None clinic_ledger)
     = clinic_ledger
         \<lparr>audit_events := [''evt-1'' \<mapsto>
            \<lparr>ev_patient_bns = ''patient-1'', ev_provider = ''dr-p'',
             ev_event_type = ''access_used'', ev_block_height = 150,
             ev_record_scope = [''lab-results''], ev_details = None\<rparr>],
          patient_event_index := [(''patient-1'', 0) \<mapsto> ''evt-1''],
          patient_event_count := [''patient-1'' \<mapsto> 1]\<rparr>"
proof -
  have c: "contract_caller (called_from_access_control (at_height ''dr-p'' 160)) = ACCESS_CONTROL"
    by (simp add: called_from_access_control_def)
  have u: "audit_events logged_ledger ''evt-1'' \<noteq> None"
    by (simp add: logged_ledger_eq)
  have k: "fst (log_event (called_from_access_control (at_height ''dr-p'' 150)) ''evt-1''
             ''patient-1'' ''dr-p'' ''access_used'' [''lab-results''] None clinic_ledger) = Inr True"
    by (simp add: clinic_ledger_eq ledger_eval log_event_def)
  have n: "get_patient_audit_trail ''patient-1'' clinic_ledger = Inr 0"
    "get_patient_audit_trail ''patient-1'' logged_ledger = Inr 1"
    by (simp_all add: get_patient_audit_trail_def clinic_ledger_eq logged_ledger_eq)
  from log_event_validation_and_atomicity
         [of "called_from_access_control (at_height ''dr-p'' 160)" "''evt-1''" "''patient-1''"
            "''dr-p''" "''access_used''" "[''lab-results'']" None logged_ledger] c u
  have a: "log_event (called_from_access_control (at_height ''dr-p'' 160)) ''evt-1'' ''patient-1''
      ''dr-p'' ''access_used'' [''lab-results''] None logged_ledger
     = (Inl (ErrCode 200), logged_ledger)"
    by blast
  from log_event_validation_and_atomicity
         [of "called_from_access_control (at_height ''dr-p'' 150)" "''evt-1''" "''patient-1''"
            "''dr-p''" "''access_used''" "[''lab-results'']" None clinic_ledger] k n(1)
  have b: "commit clinic_ledger
        (log_event (called_from_access_control (at_height ''dr-p'' 150)) ''evt-1'' ''patient-1''
           ''dr-p'' ''access_used'' [''lab-results''] None clinic_ledger)
     = clinic_ledger
         \<lparr>audit_events := (audit_events clinic_ledger)(''evt-1'' \<mapsto>
            \<lparr>ev_patient_bns = ''patient-1'', ev_provider = ''dr-p'',
             ev_event_type = ''access_used'',
             ev_block_height = stacks_block_height
               (called_from_access_control (at_height ''dr-p'' 150)),
             ev_record_scope = [''lab-results''], ev_details = None\<rparr>),
          patient_event_index := (patient_event_index clinic_ledger)
             ((''patient-1'', 0) \<mapsto> ''evt-1''),
          patient_event_count := (patient_event_count clinic_ledger)(''patient-1'' \<mapsto> 0 + 1)\<rparr>"
    by auto
  have m: "contract_caller (at_height ''dr-p'' 160) \<noteq> ACCESS_CONTROL"
    by (simp add: at_height_def ACCESS_CONTROL_def)
  from log_event_validation_and_atomicity
         [of "at_height ''dr-p'' 160" "''evt-1''" "''patient-1''" "''dr-p''" "''access_used''"
            "[''lab-results'']" None logged_ledger] m
  have z: "log_event (at_height ''dr-p'' 160) ''evt-1'' ''patient-1''
      ''dr-p'' ''access_used'' [''lab-results''] None logged_ledger
     = (Inl (ErrCode 201), logged_ledger)"
    by blast
  from z a b n(2) show ?thesis
    by (simp add: clinic_ledger_eq called_from_access_control_def at_height_def)
qed

subsection \<open>Suspension\<close>

lemma suspend_provider_ok:
  assumes "suspend_provider e p reason s = (Inr True, s')"
  shows "\<exists>st c. provider_status s p = Some st \<and> provider_credentials s p = Some c
     \<and> tx_sender e = contract_owner s
     \<and> s' = s\<lparr>provider_status := (provider_status s)(p \<mapsto>
                 st\<lparr>ps_status := ''suspended'', updated_by := tx_sender e\<rparr>),
              provider_credentials := (provider_credentials s)(p \<mapsto>
                 c\<lparr>suspension_reason := Some reason\<rparr>)\<rparr>"
  using assms
  by (auto simp: suspend_provider_def Let_def split: if_splits option.splits)

text \<open>
  Right after a \<^verbatim>\<open>suspend-provider\<close> that returns ok, \<^verbatim>\<open>verify-provider\<close> returns
  \<^verbatim>\<open>(err u304)\<close> at every height that is not above the expiry of the credentials.
\<close>

lemma verify_provider_after_suspend:
  assumes "suspend_provider e p reason s = (Inr True, s')"
  shows "\<exists>c. provider_credentials s p = Some c \<and>
           (\<not> stacks_block_height e1 > expires_at c \<longrightarrow>
              verify_provider e1 p s' = Inl (ErrCode 304))"
  using suspend_provider_ok [OF assms] by (auto simp: verify_provider_def)

lemma suspended_ledger_eq:
  "suspended_ledger = clinic_ledger
     \<lparr>provider_credentials := [''dr-p'' \<mapsto>
        \<lparr>license_number = ''L-1'', credential_types = [''medical-license''],
         issued_at = 100, expires_at = 10100, issuing_authority = ''board'',
         verification_status = ''verified'', last_verified = 100,
         suspension_reason = Some ''complaint''\<rparr>],
      provider_status := [''dr-p'' \<mapsto>
        \<lparr>registration_date = 100, last_activity = 100, ps_access_count = 0,
         ps_status = ''suspended'', updated_by = ''owner''\<rparr>]\<rparr>"
  by (simp add: suspended_ledger_def clinic_ledger_eq ledger_eval suspend_provider_def)

text \<open>
  C7 says that after a \<^verbatim>\<open>suspend-provider\<close> of a provider whose credentials have not
  expired, \<^verbatim>\<open>verify-provider\<close> returns \<^verbatim>\<open>(err u304)\<close> and \<^verbatim>\<open>grant-access\<close>
  naming the provider returns \<^verbatim>\<open>(err u104)\<close>. On the small ledger the owner suspends
  the provider at height 200. At height 300 \<^verbatim>\<open>verify-provider\<close> returns
  \<^verbatim>\<open>(err u304)\<close>, as said; \<^verbatim>\<open>grant-access\<close> naming the provider stops with a
  runtime error at its call of the registry, before the result of the verification could
  be turned into \<^verbatim>\<open>(err u104)\<close>.
\<close>

theorem grant_access_for_suspended_provider_stops:
  "suspend_provider (at_height ''owner'' 200) ''dr-p'' ''complaint'' clinic_ledger
     = (Inr True, suspended_ledger)
   \<and> verify_provider (at_height ''clerk'' 300) ''dr-p'' suspended_ledger = Inl (ErrCode 304)
   \<and> grant_access (at_height ''owner'' 300) ''dr-p'' ''patient-1'' 600 [''lab-results'']
        None suspended_ledger = (Inl RuntimeAbort, suspended_ledger)"
  by (simp add: grant_access_aborts suspended_ledger_eq clinic_ledger_eq ledger_eval
        suspend_provider_def verify_provider_def)

subsection \<open>Registration\<close>

text \<open>
  C8. \<^verbatim>\<open>register-provider\<close> first checks the sender (\<^verbatim>\<open>(err u300)\<close> for anyone
  but the owner) and that the provider has no credentials yet (\<^verbatim>\<open>(err u306)\<close>). For
  the owner and a provider with no credentials yet, it
  returns \<^verbatim>\<open>(err u307)\<close> exactly when the expiry is not above the current height
  plus 144 (which includes every expiry that is not above the height itself; the sum
  has to fit a \<^verbatim>\<open>uint\<close>). A call that returns ok leaves the state it found with three
  writes: the credentials with status \<^verbatim>\<open>verified\<close>, one entry of
  \<^verbatim>\<open>credential-verifications\<close> under the fixed id, and the provider status
  \<^verbatim>\<open>active\<close> with the access count 0. A call that does not return ok stops before
  any write.
\<close>

theorem register_provider_checks_and_writes:
  "(tx_sender e \<noteq> contract_owner s \<longrightarrow>
      register_provider e p l ts x a h s = (Inl (ErrCode 300), s))
   \<and> (tx_sender e = contract_owner s \<and> provider_credentials s p \<noteq> None \<longrightarrow>
      register_provider e p l ts x a h s = (Inl (ErrCode 306), s))
   \<and> (tx_sender e = contract_owner s \<and> provider_credentials s p = None
      \<and> stacks_block_height e + 144 \<le> uint_max \<longrightarrow>
      (fst (register_provider e p l ts x a h s) = Inl (ErrCode 307))
        = (\<not> (x > stacks_block_height e \<and> x > stacks_block_height e + 144)))
   \<and> (fst (register_provider e p l ts x a h s) = Inr True \<longrightarrow>
        snd (register_provider e p l ts x a h s) =
          s\<lparr>provider_credentials := (provider_credentials s)(p \<mapsto>
               \<lparr>license_number = l, credential_types = ts,
                issued_at = stacks_block_height e, expires_at = x,
                issuing_authority = a, verification_status = ''verified'',
                last_verified = stacks_block_height e, suspension_reason = None\<rparr>),
            credential_verifications := (credential_verifications s)
               ((p, ''verification-id'') \<mapsto>
               \<lparr>verified_by = tx_sender e, verification_date = stacks_block_height e,
                credential_hash = h, verification_result = ''verified'', ver_notes = None\<rparr>),
            provider_status := (provider_status s)(p \<mapsto>
               \<lparr>registration_date = stacks_block_height e,
                last_activity = stacks_block_height e, ps_access_count = 0,
                ps_status = ''active'', updated_by = tx_sender e\<rparr>)\<rparr>)
   \<and> (fst (register_provider e p l ts x a h s) \<noteq> Inr True \<longrightarrow>
        snd (register_provider e p l ts x a h s) = s)"
  by (simp add: register_provider_def uint_add_def MIN_CREDENTIAL_VALIDITY_BLOCKS_def Let_def
        generate_verification_id_def)

theorem register_provider_checks_and_writes_witness:
  "register_provider (at_height ''mallory'' 200) ''dr-q'' ''L-2'' [''medical-license''] 300
      ''board'' ''beef'' clinic_ledger = (Inl (ErrCode 300), clinic_ledger)
   \<and> register_provider (at_height ''owner'' 200) ''dr-p'' ''L-2'' [''medical-license''] 300
      ''board'' ''beef'' clinic_ledger = (Inl (ErrCode 306), clinic_ledger)
   \<and> register_provider (at_height ''owner'' 200) ''dr-q'' ''L-2'' [''medical-license''] 300
      ''board'' ''beef'' clinic_ledger = (Inl (ErrCode 307), clinic_ledger)
   \<and> register_provider (at_height ''owner'' 200) ''dr-q'' ''L-2'' [''medical-license''] 5000
      ''board'' ''beef'' clinic_ledger
     = (Inr True, clinic_ledger
         \<lparr>provider_credentials := (provider_credentials clinic_ledger)(''dr-q'' \<mapsto>
            \<lparr>license_number = ''L-2'', credential_types = [''medical-license''],
             issued_at = 200, expires_at = 5000, issuing_authority = ''board'',
             verification_status = ''verified'', last_verified = 200,
             suspension_reason = None\<rparr>),
          credential_verifications := (credential_verifications clinic_ledger)
            ((''dr-q'', ''verification-id'') \<mapsto>
            \<lparr>verified_by = ''owner'', verification_date = 200, credential_hash = ''beef'',
             verification_result = ''verified'', ver_notes = None\<rparr>),
          provider_status := (provider_status clinic_ledger)(''dr-q'' \<mapsto>
            \<lparr>registration_date = 200, last_activity = 200, ps_access_count = 0,
             ps_status = ''active'', updated_by = ''owner''\<rparr>)\<rparr>)"
proof -
  let ?e = "at_height ''owner'' 200"
  have o: "tx_sender ?e = contract_owner clinic_ledger"
    "provider_credentials clinic_ledger ''dr-q'' = None"
    "stacks_block_height ?e + 144 \<le> uint_max"
    "\<not> (300 > stacks_block_height ?e \<and> 300 > stacks_block_height ?e + 144)"
    by (simp_all add: at_height_def clinic_ledger_eq uint_max_def)
  have k: "fst (register_provider ?e ''dr-q'' ''L-2'' [''medical-license''] 5000
             ''board'' ''beef'' clinic_ledger) = Inr True"
    by (simp add: clinic_ledger_eq ledger_eval register_provider_def
          MIN_CREDENTIAL_VALIDITY_BLOCKS_def validate_credential_types_def
          is_valid_credential_type_def)
  from register_provider_checks_and_writes
         [of ?e clinic_ledger "''dr-q''" "''L-2''" "[''medical-license'']" 300 "''board''"
            "''beef''"] o
  have a: "register_provider ?e ''dr-q'' ''L-2'' [''medical-license''] 300
      ''board'' ''beef'' clinic_ledger = (Inl (ErrCode 307), clinic_ledger)"
    by (simp add: prod_eq_iff)
  from register_provider_checks_and_writes
         [of ?e clinic_ledger "''dr-q''" "''L-2''" "[''medical-license'']" 5000 "''board''"
            "''beef''"] k
  have b: "snd (register_provider ?e ''dr-q'' ''L-2'' [''medical-license''] 5000
             ''board'' ''beef'' clinic_ledger)
     = clinic_ledger
         \<lparr>provider_credentials := (provider_credentials clinic_ledger)(''dr-q'' \<mapsto>
            \<lparr>license_number = ''L-2'', credential_types = [''medical-license''],
             issued_at = 200, expires_at = 5000, issuing_authority = ''board'',
             verification_status = ''verified'', last_verified = 200,
             suspension_reason = None\<rparr>),
          credential_verifications := (credential_verifications clinic_ledger)
            ((''dr-q'', ''verification-id'') \<mapsto>
            \<lparr>verified_by = ''owner'', verification_date = 200, credential_hash = ''beef'',
             verification_result = ''verified'', ver_notes = None\<rparr>),
          provider_status := (provider_status clinic_ledger)(''dr-q'' \<mapsto>
            \<lparr>registration_date = 200, last_activity = 200, ps_access_count = 0,
             ps_status = ''active'', updated_by = ''owner''\<rparr>)\<rparr>"
    by (simp add: at_height_def)
  have m: "tx_sender (at_height ''mallory'' 200) \<noteq> contract_owner clinic_ledger"
    "provider_credentials clinic_ledger ''dr-p'' \<noteq> None"
    by (simp_all add: at_height_def clinic_ledger_eq)
  from register_provider_checks_and_writes
         [of "at_height ''mallory'' 200" clinic_ledger "''dr-q''" "''L-2''"
            "[''medical-license'']" 300 "''board''" "''beef''"] m(1)
  have y: "register_provider (at_height ''mallory'' 200) ''dr-q'' ''L-2'' [''medical-license'']
      300 ''board'' ''beef'' clinic_ledger = (Inl (ErrCode 300), clinic_ledger)"
    by blast
  from register_provider_checks_and_writes
         [of ?e clinic_ledger "''dr-p''" "''L-2''" "[''medical-license'']" 300 "''board''"
            "''beef''"] o(1) m(2)
  have z: "register_provider ?e ''dr-p'' ''L-2'' [''medical-license'']
      300 ''board'' ''beef'' clinic_ledger = (Inl (ErrCode 306), clinic_ledger)"
    by blast
  from y z a b k show ?thesis
    by (simp add: prod_eq_iff)
qed

subsection \<open>Renewal\<close>

text \<open>
  What \<^verbatim>\<open>update-provider-credentials\<close> checks, for the owner and a registered
  provider: the new expiry against the current height alone, then the credential types
  against the registry.
\<close>

lemma update_provider_credentials_checks:
  assumes "tx_sender e = contract_owner s" and "provider_credentials s p \<noteq> None"
  shows "(fst (update_provider_credentials e p x ts s) = Inl (ErrCode 307))
           = (\<not> x > stacks_block_height e)"
    and "x > stacks_block_height e \<Longrightarrow>
           (fst (update_provider_credentials e p x ts s) = Inl (ErrCode 305))
             = (\<exists>t \<in> set ts. valid_credential_types s t = None)"
proof -
  have v: "validate_credential_types s ts = (\<forall>t \<in> set ts. valid_credential_types s t \<noteq> None)"
    unfolding validate_credential_types_def is_valid_credential_type_def
    by (induction ts) (auto simp: le_imp_less_Suc [OF length_filter_le] less_imp_neq [symmetric]
          dest: arg_cong [where f = length])
  show "(fst (update_provider_credentials e p x ts s) = Inl (ErrCode 307))
           = (\<not> x > stacks_block_height e)"
    using assms by (auto simp: update_provider_credentials_def split: option.splits)
  show "(fst (update_provider_credentials e p x ts s) = Inl (ErrCode 305))
             = (\<exists>t \<in> set ts. valid_credential_types s t = None)"
    if "x > stacks_block_height e"
    using assms that v by (auto simp: update_provider_credentials_def split: option.splits)
qed

text \<open>
  C9 says that \<^verbatim>\<open>update-provider-credentials\<close> rejects an expiry with
  \<^verbatim>\<open>(err u307)\<close> exactly when \<^verbatim>\<open>register-provider\<close> would at the same
  height. It misses the second check of the registration. On the small ledger, at height
  200, the owner renews the provider's credentials with the expiry 300, inside the
  minimum validity window of 144 blocks, and \<^verbatim>\<open>update-provider-credentials\<close> returns
  ok; \<^verbatim>\<open>register-provider\<close> at the same height rejects the same expiry with
  \<^verbatim>\<open>(err u307)\<close>.
\<close>

theorem update_accepts_expiry_registration_rejects:
  "fst (update_provider_credentials (at_height ''owner'' 200) ''dr-p'' 300 [''medical-license'']
          clinic_ledger) = Inr True
   \<and> map_option expires_at
        (provider_credentials
          (snd (update_provider_credentials (at_height ''owner'' 200) ''dr-p'' 300
                  [''medical-license''] clinic_ledger)) ''dr-p'') = Some 300
   \<and> register_provider (at_height ''owner'' 200) ''dr-q'' ''L-2'' [''medical-license''] 300
        ''board'' ''beef'' clinic_ledger = (Inl (ErrCode 307), clinic_ledger)"
  by (simp add: clinic_ledger_eq ledger_eval update_provider_credentials_def
        register_provider_def validate_credential_types_def is_valid_credential_type_def
        MIN_CREDENTIAL_VALIDITY_BLOCKS_def)

end
